theory Spec2Isabelle
  imports Complex_Main
begin

section \<open>The wormhole fragment shader of WH.py\<close>

text \<open>
  The program is a Python host around one GLSL fragment shader
  (\<open>get_fragment_shader\<close>, lines 98 to 169 of WH.py). The shader is the per-pixel
  geodesic integrator; it is embedded here function by function.

  GLSL \<open>float\<close> is modelled by \<open>real\<close>: the embedding states what the shader's
  formulas compute over the reals and says nothing about rounding. HOL's division is
  total (\<open>x / 0 = 0\<close>), where GLSL leaves a division by zero undefined; the theorems
  about divisors below therefore speak about the divisors themselves.
\<close>

subsection \<open>Vectors, matrices and the GLSL built-ins used\<close>

record vec2 =
  vx :: real
  vy :: real

record vec3 = vec2 +
  vz :: real

text \<open>The swizzle \<open>v.xy\<close>.\<close>

definition xy :: "vec3 \<Rightarrow> vec2" where
  "xy v = \<lparr>vx = vx v, vy = vy v\<rparr>"

definition length2 :: "vec2 \<Rightarrow> real" where
  "length2 v = sqrt (vx v * vx v + vy v * vy v)"

definition length3 :: "vec3 \<Rightarrow> real" where
  "length3 v = sqrt (vx v * vx v + vy v * vy v + vz v * vz v)"

text \<open>
  GLSL leaves \<open>normalize\<close> of the zero vector undefined; with HOL's division it is the
  zero vector here.
\<close>

definition normalize2 :: "vec2 \<Rightarrow> vec2" where
  "normalize2 v = \<lparr>vx = vx v / length2 v, vy = vy v / length2 v\<rparr>"

definition normalize3 :: "vec3 \<Rightarrow> vec3" where
  "normalize3 v = \<lparr>vx = vx v / length3 v, vy = vy v / length3 v, vz = vz v / length3 v\<rparr>"

definition scale2 :: "real \<Rightarrow> vec2 \<Rightarrow> vec2" where
  "scale2 k v = \<lparr>vx = k * vx v, vy = k * vy v\<rparr>"

definition scale3 :: "real \<Rightarrow> vec3 \<Rightarrow> vec3" where
  "scale3 k v = \<lparr>vx = k * vx v, vy = k * vy v, vz = k * vz v\<rparr>"

definition add3 :: "vec3 \<Rightarrow> vec3 \<Rightarrow> vec3" where
  "add3 v w = \<lparr>vx = vx v + vx w, vy = vy v + vy w, vz = vz v + vz w\<rparr>"

text \<open>
  A \<open>mat3\<close> is stored by columns, as the GLSL constructor \<open>mat3(...)\<close> fills it:
  the first three arguments are the first column.
\<close>

record mat3 =
  col0 :: vec3
  col1 :: vec3
  col2 :: vec3

text \<open>The product \<open>m * v\<close> of a matrix and a column vector.\<close>

definition mat_vec :: "mat3 \<Rightarrow> vec3 \<Rightarrow> vec3" where
  "mat_vec m v = add3 (scale3 (vx v) (col0 m)) (add3 (scale3 (vy v) (col1 m)) (scale3 (vz v) (col2 m)))"

subsection \<open>Uniforms and constants\<close>

text \<open>
  The shader's uniforms. The three metric uniforms \<open>rho\<close>, \<open>a\<close> and \<open>M_wh\<close> carry the
  prefix \<open>u_\<close> of the other uniforms here. The two samplers are not data of the
  computation: the result names the sampler that is read.
\<close>

record uniforms =
  u_resolution :: vec2
  u_camera_pos :: vec3
  u_camera_fwd :: vec3
  u_camera_right :: vec3
  u_camera_up :: vec3
  u_rho :: real
  u_a :: real
  u_M_wh :: real
  u_time :: real

definition PI :: real where
  "PI = 3.1415926535"

definition DT :: real where
  "DT = 0.05"

definition MAX_STEPS :: nat where
  "MAX_STEPS = 500"

definition ZOOM :: real where
  "ZOOM = 1.0"

definition BOUNDARY :: real where
  "BOUNDARY = 50.0"

definition FLOW_SPEED :: real where
  "FLOW_SPEED = 0.03"

text \<open>
  The host's constants (lines 9 to 13 of WH.py) and the uniforms it writes: the
  resolution and the three metric parameters once in \<open>__init__\<close> (lines 57 to 60), the
  camera and the time in every frame of \<open>run\<close> (lines 252 to 256).
\<close>

definition WINDOW_SIZE :: vec2 where
  "WINDOW_SIZE = \<lparr>vx = 1280, vy = 720\<rparr>"

definition WORMHOLE_RHO :: real where
  "WORMHOLE_RHO = 2.0"

definition WORMHOLE_A :: real where
  "WORMHOLE_A = 2"

definition WORMHOLE_M :: real where
  "WORMHOLE_M = 0.3"

definition host_uniforms :: "vec3 \<Rightarrow> vec3 \<Rightarrow> vec3 \<Rightarrow> vec3 \<Rightarrow> real \<Rightarrow> uniforms" where
  "host_uniforms camera_pos cam_fwd cam_right cam_up time =
     \<lparr>u_resolution = WINDOW_SIZE,
      u_camera_pos = camera_pos,
      u_camera_fwd = cam_fwd,
      u_camera_right = cam_right,
      u_camera_up = cam_up,
      u_rho = WORMHOLE_RHO,
      u_a = WORMHOLE_A,
      u_M_wh = WORMHOLE_M,
      u_time = time\<rparr>"

subsection \<open>The metric: \<open>LtoR\<close> and \<open>LtoDR\<close>\<close>

definition LtoR :: "uniforms \<Rightarrow> real \<Rightarrow> real" where
  "LtoR u l =
     (let x = max 0 (2 * (\<bar>l\<bar> - u_a u) / (PI * u_M_wh u))
      in u_rho u + u_M_wh u * (x * arctan x - 0.5 * ln (1 + x * x)))"

definition LtoDR :: "uniforms \<Rightarrow> real \<Rightarrow> real" where
  "LtoDR u l =
     (let x = max 0 (2 * (\<bar>l\<bar> - u_a u) / (PI * u_M_wh u))
      in 2 * arctan x * sgn l / PI)"

definition rotationY :: "real \<Rightarrow> mat3" where
  "rotationY angle =
     (let s = sin angle; c = cos angle
      in \<lparr>col0 = \<lparr>vx = c, vy = 0, vz = s\<rparr>,
          col1 = \<lparr>vx = 0, vy = 1, vz = 0\<rparr>,
          col2 = \<lparr>vx = - s, vy = 0, vz = c\<rparr>\<rparr>)"

subsection \<open>The local variables of \<open>main\<close> and the integration loop\<close>

text \<open>
  The five \<open>float\<close> locals that \<open>main\<close> declares before the loop: \<open>l\<close>, \<open>r\<close>, \<open>dl\<close>,
  \<open>H\<close> and \<open>phi\<close>, as the fields \<open>st_l\<close>, \<open>st_r\<close>, \<open>st_dl\<close>, \<open>st_H\<close>, \<open>st_phi\<close>.
\<close>

record ray_state =
  st_l :: real
  st_r :: real
  st_dl :: real
  st_H :: real
  st_phi :: real

text \<open>Lines 133 and 134: the pixel's \<open>uv\<close> and its ray direction.\<close>

definition pixel_uv :: "uniforms \<Rightarrow> vec2 \<Rightarrow> vec2" where
  "pixel_uv u frag =
     \<lparr>vx = (2 * vx frag - vx (u_resolution u)) / vy (u_resolution u),
      vy = (2 * vy frag - vy (u_resolution u)) / vy (u_resolution u)\<rparr>"

definition ray_dir :: "uniforms \<Rightarrow> vec2 \<Rightarrow> vec3" where
  "ray_dir u frag =
     (let uv = pixel_uv u frag
      in normalize3 (add3 (add3 (scale3 ZOOM (u_camera_fwd u)) (scale3 (vx uv) (u_camera_right u)))
                          (scale3 (vy uv) (u_camera_up u))))"

text \<open>Lines 135 to 139: the locals before the loop.\<close>

definition init_state :: "uniforms \<Rightarrow> vec3 \<Rightarrow> ray_state" where
  "init_state u rd =
     (let l = vz (u_camera_pos u);
          r = length3 (u_camera_pos u);
          dl = vz rd;
          H = r * length2 (xy rd);
          phi = 0
      in \<lparr>st_l = l, st_r = r, st_dl = dl, st_H = H, st_phi = phi\<rparr>)"

text \<open>
  Lines 141 to 145: the loop body before the test of line 146, one assignment after the
  other. \<open>dr\<close> is local to the body.
\<close>

definition body :: "uniforms \<Rightarrow> ray_state \<Rightarrow> ray_state" where
  "body u s0 =
     (let s1 = s0\<lparr>st_r := LtoR u (st_l s0)\<rparr>;
          dr = LtoDR u (st_l s1);
          s2 = s1\<lparr>st_l := st_l s1 + st_dl s1 * DT\<rparr>;
          s3 = s2\<lparr>st_phi := st_phi s2 + st_H s2 / (st_r s2 * st_r s2) * DT\<rparr>;
          s4 = s3\<lparr>st_dl := st_dl s3 + st_H s3 * st_H s3 * dr / (st_r s3 * st_r s3 * st_r s3) * DT\<rparr>
      in s4)"

text \<open>
  Lines 140 to 147: \<open>for (int i = 0; i < MAX_STEPS; i++) { body; if (abs(l) > BOUNDARY) break; }\<close>
  from the counter value \<open>i\<close> on; the result is the state of the locals after the loop.
\<close>

function for_loop :: "uniforms \<Rightarrow> nat \<Rightarrow> ray_state \<Rightarrow> ray_state" where
  "for_loop u i s =
     (if i < MAX_STEPS
      then (let s' = body u s in if \<bar>st_l s'\<bar> > BOUNDARY then s' else for_loop u (i + 1) s')
      else s)"
  by pat_completeness auto
termination
  by (relation "measure (\<lambda>(u, i, s). MAX_STEPS - i)") auto

text \<open>
  The same loop, recording the state of the locals at the end of every iteration it
  performs (after the body, at the test of line 146).
\<close>

function loop_states :: "uniforms \<Rightarrow> nat \<Rightarrow> ray_state \<Rightarrow> ray_state list" where
  "loop_states u i s =
     (if i < MAX_STEPS
      then (let s' = body u s in s' # (if \<bar>st_l s'\<bar> > BOUNDARY then [] else loop_states u (i + 1) s'))
      else [])"
  by pat_completeness auto
termination
  by (relation "measure (\<lambda>(u, i, s). MAX_STEPS - i)") auto

text \<open>Both loop equations unfold for ever; they are applied by hand.\<close>

declare for_loop.simps [simp del] loop_states.simps [simp del]

subsection \<open>Exit direction and environment selection\<close>

text \<open>Lines 148 to 150: \<open>dr\<close> is declared anew from the final \<open>l\<close>; \<open>r\<close> is the local as the loop left it.\<close>

definition exit_dx :: "uniforms \<Rightarrow> ray_state \<Rightarrow> real" where
  "exit_dx u s =
     (let dr = LtoDR u (st_l s)
      in st_dl s * dr * cos (st_phi s) - st_H s / st_r s * sin (st_phi s))"

definition exit_dy :: "uniforms \<Rightarrow> ray_state \<Rightarrow> real" where
  "exit_dy u s =
     (let dr = LtoDR u (st_l s)
      in st_dl s * dr * sin (st_phi s) + st_H s / st_r s * cos (st_phi s))"

text \<open>Lines 153 to 156; the threshold \<open>1e-5\<close> is written out.\<close>

definition initial_perp_dir :: "vec3 \<Rightarrow> vec2" where
  "initial_perp_dir rd =
     (if length2 (xy rd) > 0.00001 then normalize2 (xy rd) else \<lparr>vx = 0, vy = 0\<rparr>)"

text \<open>Lines 151 to 158.\<close>

definition final_dir :: "uniforms \<Rightarrow> vec3 \<Rightarrow> ray_state \<Rightarrow> vec3" where
  "final_dir u rd s =
     (let dx = exit_dx u s;
          dy = exit_dy u s;
          t = scale2 dy (initial_perp_dir rd)
      in normalize3 \<lparr>vx = vx t, vy = vy t, vz = dx\<rparr>)"

text \<open>
  The fragment colour is a texture read, \<open>texture(sampler, direction)\<close>; the model keeps
  which cube map is read and in which direction.
\<close>

datatype sampler = U_skybox_a | U_skybox_b

datatype frag_color = Texture (tex_sampler: sampler) (tex_dir: vec3)

text \<open>Lines 159 to 167.\<close>

definition select_env :: "uniforms \<Rightarrow> real \<Rightarrow> vec3 \<Rightarrow> frag_color" where
  "select_env u l fd =
     (let rot_a = rotationY (u_time u * FLOW_SPEED);
          rot_b = rotationY (- u_time u * FLOW_SPEED * 0.7);
          rotated_dir_a = mat_vec rot_a fd;
          rotated_dir_b = mat_vec rot_b fd
      in if l \<ge> 0 then Texture U_skybox_a rotated_dir_a else Texture U_skybox_b rotated_dir_b)"

text \<open>The whole of \<open>main\<close> for the fragment at \<open>gl_FragCoord.xy = frag\<close>.\<close>

definition main :: "uniforms \<Rightarrow> vec2 \<Rightarrow> frag_color" where
  "main u frag =
     (let rd = ray_dir u frag;
          s = for_loop u 0 (init_state u rd)
      in select_env u (st_l s) (final_dir u rd s))"

subsection \<open>The specification's own words, for comparison\<close>

text \<open>
  The per-step update as the specification writes it (section 4.2): \<open>r\<close> and \<open>dr\<close> from
  the pre-update \<open>l\<close>, then \<open>l += dl * DT\<close>, \<open>phi += (H / r\<^sup>2) * DT\<close>,
  \<open>dl += H\<^sup>2 * dr / r\<^sup>3 * DT\<close>, every right-hand side read at the pre-update state.
\<close>

definition spec_euler_step :: "uniforms \<Rightarrow> ray_state \<Rightarrow> ray_state" where
  "spec_euler_step u s =
     (let r = LtoR u (st_l s);
          dr = LtoDR u (st_l s)
      in \<lparr>st_l = st_l s + st_dl s * DT,
          st_r = r,
          st_dl = st_dl s + (st_H s)\<^sup>2 * dr / r ^ 3 * DT,
          st_H = st_H s,
          st_phi = st_phi s + (st_H s / r\<^sup>2) * DT\<rparr>)"

text \<open>
  The exit direction as claim C4 words it: \<open>dr\<close> and \<open>r\<close> both evaluated at the final
  flare coordinate, the transverse direction as the code has it.
\<close>

definition spec_final_dir :: "uniforms \<Rightarrow> vec3 \<Rightarrow> ray_state \<Rightarrow> vec3" where
  "spec_final_dir u rd s =
     (let r = LtoR u (st_l s);
          dr = LtoDR u (st_l s);
          dx = st_dl s * dr * cos (st_phi s) - (st_H s / r) * sin (st_phi s);
          dy = st_dl s * dr * sin (st_phi s) + (st_H s / r) * cos (st_phi s);
          t = scale2 dy (initial_perp_dir rd)
      in normalize3 \<lparr>vx = vx t, vy = vy t, vz = dx\<rparr>)"

subsection \<open>Concrete frames\<close>

text \<open>
  The fragment at the centre of the 1280 by 720 window, where \<open>uv = (0, 0)\<close>, and three
  camera poses as \<open>run\<close> computes them from yaw and pitch (\<open>cam_right\<close> is the
  normalised cross product of \<open>cam_fwd\<close> and \<open>(0, 1, 0)\<close>, \<open>cam_up\<close> the cross product of
  \<open>cam_right\<close> and \<open>cam_fwd\<close>).
\<close>

definition centre_pixel :: vec2 where
  "centre_pixel = \<lparr>vx = 640, vy = 360\<rparr>"

text \<open>The camera at its start position \<open>(0, 0, 15)\<close>, looking along the positive axis.\<close>

definition axis_frame :: "real \<Rightarrow> uniforms" where
  "axis_frame time =
     host_uniforms \<lparr>vx = 0, vy = 0, vz = 15\<rparr> \<lparr>vx = 0, vy = 0, vz = 1\<rparr>
       \<lparr>vx = - 1, vy = 0, vz = 0\<rparr> \<lparr>vx = 0, vy = 1, vz = 0\<rparr> time"

text \<open>The camera beside the throat at \<open>(3, 4, 0)\<close>, looking across the axis.\<close>

definition collar_frame :: "real \<Rightarrow> uniforms" where
  "collar_frame time =
     host_uniforms \<lparr>vx = 3, vy = 4, vz = 0\<rparr> \<lparr>vx = 1, vy = 0, vz = 0\<rparr>
       \<lparr>vx = 0, vy = 0, vz = 1\<rparr> \<lparr>vx = 0, vy = 1, vz = 0\<rparr> time"

text \<open>The camera on the axis at \<open>(0, 0, 49.98)\<close>, looking outwards and sideways.\<close>

definition edge_frame :: "real \<Rightarrow> uniforms" where
  "edge_frame time =
     host_uniforms \<lparr>vx = 0, vy = 0, vz = 49.98\<rparr> \<lparr>vx = 0.6, vy = 0, vz = 0.8\<rparr>
       \<lparr>vx = - 0.8, vy = 0, vz = 0.6\<rparr> \<lparr>vx = 0, vy = 1, vz = 0\<rparr> time"

text \<open>An axial ray two steps short of the boundary.\<close>

definition near_boundary_ray :: ray_state where
  "near_boundary_ray = \<lparr>st_l = 49.95, st_r = 49.95, st_dl = 1, st_H = 0, st_phi = 0\<rparr>"

section \<open>Auxiliary facts\<close>

subsection \<open>The flare profile \<open>x * arctan x - ln (1 + x\<^sup>2) / 2\<close>\<close>

lemma flare_deriv:
  "((\<lambda>t::real. t * arctan t - 0.5 * ln (1 + t * t)) has_real_derivative arctan x) (at x)"
proof -
  have pos: "1 + x * x > 0" by (simp add: add_pos_nonneg)
  then have nz: "1 + x * x \<noteq> 0" "4 + x * x * 4 \<noteq> 0" by auto
  show ?thesis
    using pos nz by (auto intro!: derivative_eq_intros simp: power2_eq_square divide_simps)
qed

lemma flare_cont: "continuous_on A (\<lambda>t::real. t * arctan t - 0.5 * ln (1 + t * t))"
proof -
  have "\<And>t::real. 1 + t * t \<noteq> 0" by (metis add_pos_nonneg less_numeral_extra(1) less_irrefl zero_le_square)
  then show ?thesis by (intro continuous_intros) auto
qed

lemma flare_strict_mono:
  assumes "0 \<le> x" "x < (y::real)"
  shows "x * arctan x - 0.5 * ln (1 + x * x) < y * arctan y - 0.5 * ln (1 + y * y)"
proof (rule DERIV_pos_imp_increasing_open [of x y "\<lambda>t. t * arctan t - 0.5 * ln (1 + t * t)"])
  show "x < y" by fact
next
  fix t assume "x < t" "t < y"
  then have "0 < arctan t" using assms by (simp add: zero_less_arctan_iff)
  then show "\<exists>d. ((\<lambda>t. t * arctan t - 0.5 * ln (1 + t * t)) has_real_derivative d) (at t) \<and> 0 < d"
    using flare_deriv by blast
next
  show "continuous_on {x..y} (\<lambda>t. t * arctan t - 0.5 * ln (1 + t * t))" by (rule flare_cont)
qed

lemma flare_pos: "0 < (x::real) \<Longrightarrow> 0 < x * arctan x - 0.5 * ln (1 + x * x)"
  using flare_strict_mono [of 0 x] by simp

subsection \<open>The metric\<close>

lemma PI_pos: "0 < PI"
  by (simp add: PI_def)

lemma metric_x_zero_iff:
  "0 < u_M_wh u \<Longrightarrow> max 0 (2 * (\<bar>l\<bar> - u_a u) / (PI * u_M_wh u)) = 0 \<longleftrightarrow> \<bar>l\<bar> \<le> u_a u"
proof -
  assume M: "0 < u_M_wh u"
  then have d: "0 < PI * u_M_wh u" using PI_pos by simp
  have "2 * (\<bar>l\<bar> - u_a u) / (PI * u_M_wh u) \<le> 0 \<longleftrightarrow> 2 * (\<bar>l\<bar> - u_a u) \<le> 0"
    using d by (simp add: divide_le_0_iff)
  then show ?thesis by (auto simp: max_def)
qed

lemma LtoR_collar: "0 < u_M_wh u \<Longrightarrow> \<bar>l\<bar> \<le> u_a u \<Longrightarrow> LtoR u l = u_rho u"
proof -
  assume "0 < u_M_wh u" "\<bar>l\<bar> \<le> u_a u"
  then have x: "max 0 (2 * (\<bar>l\<bar> - u_a u) / (PI * u_M_wh u)) = 0"
    using metric_x_zero_iff [of u l] by blast
  show ?thesis unfolding LtoR_def Let_def x by simp
qed

lemma LtoR_outside: "0 < u_M_wh u \<Longrightarrow> u_a u < \<bar>l\<bar> \<Longrightarrow> u_rho u < LtoR u l"
proof -
  assume M: "0 < u_M_wh u" and l: "u_a u < \<bar>l\<bar>"
  define x where "x = max 0 (2 * (\<bar>l\<bar> - u_a u) / (PI * u_M_wh u))"
  have "x \<noteq> 0"
  proof
    assume "x = 0"
    then have "\<bar>l\<bar> \<le> u_a u" using metric_x_zero_iff [OF M, of l] unfolding x_def by blast
    with l show False by linarith
  qed
  moreover have "0 \<le> x" unfolding x_def by (rule max.cobounded1)
  ultimately have "0 < x" by linarith
  then have "0 < u_M_wh u * (x * arctan x - 0.5 * ln (1 + x * x))"
    using M flare_pos [of x] by simp
  moreover have "LtoR u l = u_rho u + u_M_wh u * (x * arctan x - 0.5 * ln (1 + x * x))"
    unfolding LtoR_def Let_def x_def by (rule refl)
  ultimately show ?thesis by linarith
qed

lemma LtoR_ge_rho: "0 < u_M_wh u \<Longrightarrow> u_rho u \<le> LtoR u l"
  using LtoR_collar [of u l] LtoR_outside [of u l] by (cases "\<bar>l\<bar> \<le> u_a u") auto

lemma LtoDR_collar: "0 < u_M_wh u \<Longrightarrow> \<bar>l\<bar> \<le> u_a u \<Longrightarrow> LtoDR u l = 0"
proof -
  assume "0 < u_M_wh u" "\<bar>l\<bar> \<le> u_a u"
  then have x: "max 0 (2 * (\<bar>l\<bar> - u_a u) / (PI * u_M_wh u)) = 0"
    using metric_x_zero_iff [of u l] by blast
  show ?thesis unfolding LtoDR_def Let_def x by simp
qed

lemma LtoDR_zero: "LtoDR u 0 = 0"
  by (simp add: LtoDR_def Let_def)

subsection \<open>The loop\<close>

lemma body_fields:
  "st_l (body u s) = st_l s + st_dl s * DT"
  "st_r (body u s) = LtoR u (st_l s)"
  "st_H (body u s) = st_H s"
  "st_phi (body u s) = st_phi s + st_H s / (LtoR u (st_l s) * LtoR u (st_l s)) * DT"
  "st_dl (body u s) = st_dl s + st_H s * st_H s * LtoDR u (st_l s) / (LtoR u (st_l s) * LtoR u (st_l s) * LtoR u (st_l s)) * DT"
  by (simp_all add: body_def Let_def)

lemma for_loop_last: "for_loop u i s = last (s # loop_states u i s)"
proof (induction u i s rule: for_loop.induct)
  case (1 u i s)
  show ?case
  proof (cases "i < MAX_STEPS")
    case False
    then show ?thesis by (simp add: for_loop.simps [of u i s] loop_states.simps [of u i s])
  next
    case True
    show ?thesis
    proof (cases "\<bar>st_l (body u s)\<bar> > BOUNDARY")
      case True
      with \<open>i < MAX_STEPS\<close> show ?thesis
        by (simp add: for_loop.simps [of u i s] loop_states.simps [of u i s] Let_def)
    next
      case False
      with \<open>i < MAX_STEPS\<close> 1 [of "body u s"] show ?thesis
        by (simp add: for_loop.simps [of u i s] loop_states.simps [of u i s] Let_def)
    qed
  qed
qed

lemma loop_states_length: "length (loop_states u i s) \<le> MAX_STEPS - i"
proof (induction u i s rule: loop_states.induct)
  case (1 u i s)
  show ?case
  proof (cases "i < MAX_STEPS \<and> \<not> \<bar>st_l (body u s)\<bar> > BOUNDARY")
    case True
    with 1 [of "body u s"] have "length (loop_states u (i + 1) (body u s)) \<le> MAX_STEPS - (i + 1)"
      by simp
    moreover have "length (loop_states u i s) = Suc (length (loop_states u (i + 1) (body u s)))"
      using True by (simp add: loop_states.simps [of u i s] Let_def)
    moreover have "i < MAX_STEPS" using True by simp
    ultimately show ?thesis by linarith
  next
    case False
    then show ?thesis
      by (auto simp add: loop_states.simps [of u i s] Let_def)
  qed
qed

lemma loop_states_nonempty: "i < MAX_STEPS \<Longrightarrow> loop_states u i s \<noteq> []"
  by (simp add: loop_states.simps [of u i s] Let_def)

lemma loop_states_butlast:
  "t \<in> set (butlast (loop_states u i s)) \<Longrightarrow> \<bar>st_l t\<bar> \<le> BOUNDARY"
proof (induction u i s rule: loop_states.induct)
  case (1 u i s)
  show ?case
  proof (cases "i < MAX_STEPS \<and> \<not> \<bar>st_l (body u s)\<bar> > BOUNDARY")
    case True
    with 1 show ?thesis
      by (auto simp add: loop_states.simps [of u i s] Let_def split: if_splits)
  next
    case False
    with 1(2) show ?thesis
      by (auto simp add: loop_states.simps [of u i s] Let_def split: if_splits)
  qed
qed

lemma loop_states_short:
  "length (loop_states u i s) < MAX_STEPS - i \<Longrightarrow> \<bar>st_l (last (loop_states u i s))\<bar> > BOUNDARY"
proof (induction u i s rule: loop_states.induct)
  case (1 u i s)
  from 1(2) have i: "i < MAX_STEPS" by simp
  show ?case
  proof (cases "\<bar>st_l (body u s)\<bar> > BOUNDARY")
    case True
    with i show ?thesis by (simp add: loop_states.simps [of u i s] Let_def)
  next
    case False
    with i 1(2) have "length (loop_states u (i + 1) (body u s)) < MAX_STEPS - (i + 1)"
      by (simp add: loop_states.simps [of u i s] Let_def)
    with 1(1) [of "body u s"] i False
    have "\<bar>st_l (last (loop_states u (i + 1) (body u s)))\<bar> > BOUNDARY" by simp
    moreover have "loop_states u (i + 1) (body u s) \<noteq> []"
      using \<open>length (loop_states u (i + 1) (body u s)) < MAX_STEPS - (i + 1)\<close>
      by (intro loop_states_nonempty) simp
    ultimately show ?thesis using i False
      by (simp add: loop_states.simps [of u i s] Let_def)
  qed
qed

lemma loop_states_chain:
  "loop_states u i s = map (body u) (butlast (s # loop_states u i s))"
proof (induction u i s rule: loop_states.induct)
  case (1 u i s)
  show ?case
  proof (cases "i < MAX_STEPS \<and> \<not> \<bar>st_l (body u s)\<bar> > BOUNDARY")
    case True
    with 1 [of "body u s"] show ?thesis
      by (simp add: loop_states.simps [of u i s] Let_def)
  next
    case False
    then show ?thesis
      by (auto simp add: loop_states.simps [of u i s] Let_def)
  qed
qed

lemma loop_states_H: "t \<in> set (loop_states u i s) \<Longrightarrow> st_H t = st_H s"
proof (induction u i s rule: loop_states.induct)
  case (1 u i s)
  show ?case
  proof (cases "i < MAX_STEPS \<and> \<not> \<bar>st_l (body u s)\<bar> > BOUNDARY")
    case True
    with 1 show ?thesis
      by (auto simp add: loop_states.simps [of u i s] Let_def body_fields)
  next
    case False
    with 1(2) show ?thesis
      by (auto simp add: loop_states.simps [of u i s] Let_def body_fields split: if_splits)
  qed
qed

lemma for_loop_H: "st_H (for_loop u i s) = st_H s"
proof (cases "loop_states u i s = []")
  case True
  then show ?thesis by (simp add: for_loop_last)
next
  case False
  then have "last (loop_states u i s) \<in> set (loop_states u i s)" by simp
  then have "st_H (last (loop_states u i s)) = st_H s" by (rule loop_states_H)
  then show ?thesis using False by (simp add: for_loop_last)
qed

lemma body_is_spec_step: "body u s = spec_euler_step u s"
  by (simp add: body_def spec_euler_step_def Let_def power2_eq_square power3_eq_cube)

lemma loop_states_r:
  "0 < u_M_wh u \<Longrightarrow> t \<in> set (loop_states u i s) \<Longrightarrow> u_rho u \<le> st_r t"
proof -
  assume M: "0 < u_M_wh u" and t: "t \<in> set (loop_states u i s)"
  from t have "t \<in> set (map (body u) (butlast (s # loop_states u i s)))"
    using loop_states_chain [of u i s] by simp
  then obtain s' where "t = body u s'" by auto
  then show ?thesis using LtoR_ge_rho [OF M] by (simp add: body_fields)
qed

lemma sqrt_eqI: "0 \<le> c \<Longrightarrow> c * c = x \<Longrightarrow> sqrt x = (c::real)"
  by (rule real_sqrt_unique) (simp_all add: power2_eq_square)

lemma loop_states_break:
  "i < MAX_STEPS \<Longrightarrow> BOUNDARY < \<bar>st_l (body u s)\<bar> \<Longrightarrow> loop_states u i s = [body u s]"
  by (simp add: loop_states.simps [of u i s] Let_def)

lemma loop_states_continue:
  "i < MAX_STEPS \<Longrightarrow> \<not> BOUNDARY < \<bar>st_l (body u s)\<bar> \<Longrightarrow>
     loop_states u i s = body u s # loop_states u (Suc i) (body u s)"
  by (simp add: loop_states.simps [of u i s] Let_def)

lemma host_metric [simp]:
  "u_rho (host_uniforms p f r up t) = 2"
  "u_a (host_uniforms p f r up t) = 2"
  "u_M_wh (host_uniforms p f r up t) = 0.3"
  by (simp_all add: host_uniforms_def WORMHOLE_RHO_def WORMHOLE_A_def WORMHOLE_M_def)

lemma near_boundary_states:
  "loop_states u 0 near_boundary_ray = [body u near_boundary_ray, body u (body u near_boundary_ray)]"
proof -
  have 1: "\<not> BOUNDARY < \<bar>st_l (body u near_boundary_ray)\<bar>"
    by (simp add: body_fields near_boundary_ray_def DT_def BOUNDARY_def)
  have 2: "BOUNDARY < \<bar>st_l (body u (body u near_boundary_ray))\<bar>"
    by (simp add: body_fields near_boundary_ray_def DT_def BOUNDARY_def)
  have "loop_states u 0 near_boundary_ray
          = body u near_boundary_ray # loop_states u (Suc 0) (body u near_boundary_ray)"
    using 1 by (intro loop_states_continue) (simp add: MAX_STEPS_def)
  moreover have "loop_states u (Suc 0) (body u near_boundary_ray) = [body u (body u near_boundary_ray)]"
    using 2 by (intro loop_states_break) (simp add: MAX_STEPS_def)
  ultimately show ?thesis by simp
qed

lemma for_loop_break:
  "i < MAX_STEPS \<Longrightarrow> BOUNDARY < \<bar>st_l (body u s)\<bar> \<Longrightarrow> for_loop u i s = body u s"
  by (simp add: for_loop.simps [of u i s] Let_def)

lemma for_loop_continue:
  "i < MAX_STEPS \<Longrightarrow> \<not> BOUNDARY < \<bar>st_l (body u s)\<bar> \<Longrightarrow>
     for_loop u i s = for_loop u (Suc i) (body u s)"
  by (simp add: for_loop.simps [of u i s] Let_def)

lemma for_loop_done: "\<not> i < MAX_STEPS \<Longrightarrow> for_loop u i s = s"
  by (simp add: for_loop.simps [of u i s])

lemma loop_states_done: "\<not> i < MAX_STEPS \<Longrightarrow> loop_states u i s = []"
  by (simp add: loop_states.simps [of u i s])

text \<open>A ray with \<open>H = 0\<close>: the body only moves \<open>l\<close> and refreshes \<open>r\<close>.\<close>

lemma axial_body:
  "st_H s = 0 \<Longrightarrow> st_phi (body u s) = st_phi s \<and> st_dl (body u s) = st_dl s"
  by (simp add: body_fields)

lemma axial_states:
  "st_H s = 0 \<Longrightarrow> t \<in> set (loop_states u i s) \<Longrightarrow> st_phi t = st_phi s \<and> st_dl t = st_dl s"
proof (induction u i s rule: loop_states.induct)
  case (1 u i s)
  from 1(3) have i: "i < MAX_STEPS" by (auto simp: loop_states.simps [of u i s])
  have b: "st_H (body u s) = 0" "st_phi (body u s) = st_phi s" "st_dl (body u s) = st_dl s"
    using 1(2) by (simp_all add: body_fields)
  show ?case
  proof (cases "BOUNDARY < \<bar>st_l (body u s)\<bar>")
    case True
    with i 1(3) have "t = body u s" by (simp add: loop_states_break)
    with b show ?thesis by simp
  next
    case False
    with i 1(3) have "t = body u s \<or> t \<in> set (loop_states u (i + 1) (body u s))"
      by (simp add: loop_states_continue)
    then show ?thesis
    proof
      assume "t = body u s" with b show ?thesis by simp
    next
      assume "t \<in> set (loop_states u (i + 1) (body u s))"
      with 1(1) [OF i refl False b(1)] b show ?thesis by simp
    qed
  qed
qed

lemma axial_full_run:
  "st_H s = 0 \<Longrightarrow> st_dl s = 1 \<Longrightarrow> 0 \<le> st_l s \<Longrightarrow>
   st_l s + real (MAX_STEPS - i) * DT \<le> BOUNDARY \<Longrightarrow>
     length (loop_states u i s) = MAX_STEPS - i \<and>
     st_l (for_loop u i s) = st_l s + real (MAX_STEPS - i) * DT"
proof (induction u i s rule: loop_states.induct)
  case (1 u i s)
  show ?case
  proof (cases "i < MAX_STEPS")
    case False
    then show ?thesis by (simp add: loop_states_done for_loop_done)
  next
    case True
    have DT: "0 < DT" by (simp add: DT_def)
    have k: "real (MAX_STEPS - i) = real (MAX_STEPS - (i + 1)) + 1"
      using True by (simp add: of_nat_diff)
    have l': "st_l (body u s) = st_l s + DT" using 1(3) by (simp add: body_fields)
    have "0 \<le> real (MAX_STEPS - (i + 1)) * DT" using DT by simp
    with k 1(5) have le: "st_l s + DT \<le> BOUNDARY"
      by (simp add: algebra_simps)
    then have nb: "\<not> BOUNDARY < \<bar>st_l (body u s)\<bar>"
      using l' 1(4) DT by simp
    have H': "st_H (body u s) = 0" "st_dl (body u s) = 1"
      using 1(2,3) by (simp_all add: body_fields)
    have pos': "0 \<le> st_l (body u s)" using l' 1(4) DT by simp
    have b': "st_l (body u s) + real (MAX_STEPS - (i + 1)) * DT \<le> BOUNDARY"
      using 1(5) k l' by (simp add: algebra_simps)
    from 1(1) [OF True refl nb H' pos' b']
    have IH: "length (loop_states u (i + 1) (body u s)) = MAX_STEPS - (i + 1)"
      "st_l (for_loop u (i + 1) (body u s)) = st_l (body u s) + real (MAX_STEPS - (i + 1)) * DT"
      by simp_all
    have "length (loop_states u i s) = MAX_STEPS - i"
      using True nb IH(1) by (simp add: loop_states_continue)
    moreover have "st_l (for_loop u i s) = st_l s + real (MAX_STEPS - i) * DT"
      using True nb IH(2) l' k by (simp add: for_loop_continue algebra_simps)
    ultimately show ?thesis by simp
  qed
qed

subsection \<open>The concrete frames\<close>

lemma host_fields [simp]:
  "u_resolution (host_uniforms p f r up t) = \<lparr>vx = 1280, vy = 720\<rparr>"
  "u_camera_pos (host_uniforms p f r up t) = p"
  "u_camera_fwd (host_uniforms p f r up t) = f"
  "u_camera_right (host_uniforms p f r up t) = r"
  "u_camera_up (host_uniforms p f r up t) = up"
  "u_time (host_uniforms p f r up t) = t"
  by (simp_all add: host_uniforms_def WINDOW_SIZE_def)

lemma centre_uv: "pixel_uv (host_uniforms p f r up t) centre_pixel = \<lparr>vx = 0, vy = 0\<rparr>"
  by (simp add: pixel_uv_def centre_pixel_def)

lemma centre_ray_dir: "ray_dir (host_uniforms p f r up t) centre_pixel = normalize3 f"
  by (cases f) (simp add: ray_dir_def centre_uv ZOOM_def add3_def scale3_def)

lemma axis_ray_dir: "ray_dir (axis_frame t) centre_pixel = \<lparr>vx = 0, vy = 0, vz = 1\<rparr>"
  by (simp add: axis_frame_def centre_ray_dir normalize3_def length3_def)

lemma axis_init:
  "init_state (axis_frame t) \<lparr>vx = 0, vy = 0, vz = 1\<rparr>
     = \<lparr>st_l = 15, st_r = 15, st_dl = 1, st_H = 0, st_phi = 0\<rparr>"
  by (simp add: init_state_def axis_frame_def Let_def length3_def length2_def xy_def)

lemma axis_run:
  "length (loop_states (axis_frame t) 0 \<lparr>st_l = 15, st_r = 15, st_dl = 1, st_H = 0, st_phi = 0\<rparr>) = MAX_STEPS"
  "st_l (for_loop (axis_frame t) 0 \<lparr>st_l = 15, st_r = 15, st_dl = 1, st_H = 0, st_phi = 0\<rparr>) = 40"
  using axial_full_run [of "\<lparr>st_l = 15, st_r = 15, st_dl = 1, st_H = 0, st_phi = 0\<rparr>" 0 "axis_frame t"]
  by (simp_all add: MAX_STEPS_def DT_def BOUNDARY_def)

lemma LtoDR_pos: "0 < u_M_wh u \<Longrightarrow> u_a u < l \<Longrightarrow> 0 < l \<Longrightarrow> 0 < LtoDR u l"
proof -
  assume M: "0 < u_M_wh u" and l: "u_a u < l" "0 < l"
  define x where "x = max 0 (2 * (\<bar>l\<bar> - u_a u) / (PI * u_M_wh u))"
  have "0 < 2 * (\<bar>l\<bar> - u_a u) / (PI * u_M_wh u)"
    using M l PI_pos by simp
  then have "0 < x" unfolding x_def by simp
  then have "0 < arctan x" by (simp add: zero_less_arctan_iff)
  moreover have "LtoDR u l = 2 * arctan x * sgn l / PI"
    unfolding LtoDR_def Let_def x_def by (rule refl)
  ultimately show ?thesis using l PI_pos by simp
qed

lemma normalize3_axis: "0 < d \<Longrightarrow> normalize3 \<lparr>vx = 0, vy = 0, vz = d\<rparr> = \<lparr>vx = 0, vy = 0, vz = 1\<rparr>"
  by (simp add: normalize3_def length3_def)

lemma collar_ray_dir: "ray_dir (collar_frame t) centre_pixel = \<lparr>vx = 1, vy = 0, vz = 0\<rparr>"
  by (simp add: collar_frame_def centre_ray_dir normalize3_def length3_def)

subsection \<open>The rotation about the vertical axis\<close>

lemma rotationY_apply:
  "mat_vec (rotationY angle) v
     = \<lparr>vx = cos angle * vx v - sin angle * vz v, vy = vy v,
        vz = sin angle * vx v + cos angle * vz v\<rparr>"
  by (simp add: mat_vec_def rotationY_def Let_def add3_def scale3_def algebra_simps)

lemma rotationY_length: "length3 (mat_vec (rotationY angle) v) = length3 v"
proof -
  have "(cos angle * vx v - sin angle * vz v) * (cos angle * vx v - sin angle * vz v)
        + (sin angle * vx v + cos angle * vz v) * (sin angle * vx v + cos angle * vz v)
        = (sin angle * sin angle + cos angle * cos angle) * (vx v * vx v + vz v * vz v)"
    by algebra
  also have "sin angle * sin angle + cos angle * cos angle = 1"
    using sin_cos_squared_add [of angle] by (simp only: power2_eq_square)
  also have "1 * (vx v * vx v + vz v * vz v) = vx v * vx v + vz v * vz v"
    by (rule mult_1)
  finally have "(cos angle * vx v - sin angle * vz v) * (cos angle * vx v - sin angle * vz v)
        + vy v * vy v
        + (sin angle * vx v + cos angle * vz v) * (sin angle * vx v + cos angle * vz v)
        = vx v * vx v + vy v * vy v + vz v * vz v"
    by linarith
  then show ?thesis
    by (simp only: rotationY_apply length3_def vec2.simps vec3.simps)
qed

subsection \<open>The exit direction\<close>

lemma LtoR_strict_mono:
  assumes M: "0 < u_M_wh u" and l1: "u_a u \<le> \<bar>l1\<bar>" and l2: "\<bar>l1\<bar> < \<bar>l2\<bar>"
  shows "LtoR u l1 < LtoR u l2"
proof -
  define x1 where "x1 = max 0 (2 * (\<bar>l1\<bar> - u_a u) / (PI * u_M_wh u))"
  define x2 where "x2 = max 0 (2 * (\<bar>l2\<bar> - u_a u) / (PI * u_M_wh u))"
  have d: "0 < PI * u_M_wh u" using M PI_pos by simp
  have "0 \<le> 2 * (\<bar>l1\<bar> - u_a u) / (PI * u_M_wh u)" using d l1 by simp
  then have e1: "x1 = 2 * (\<bar>l1\<bar> - u_a u) / (PI * u_M_wh u)" unfolding x1_def by simp
  have lt: "2 * (\<bar>l1\<bar> - u_a u) / (PI * u_M_wh u) < 2 * (\<bar>l2\<bar> - u_a u) / (PI * u_M_wh u)"
    using d l2 by (simp add: divide_strict_right_mono)
  then have "x1 < x2" unfolding e1 x2_def by simp
  moreover have "0 \<le> x1" unfolding x1_def by (rule max.cobounded1)
  ultimately have "x1 * arctan x1 - 0.5 * ln (1 + x1 * x1) < x2 * arctan x2 - 0.5 * ln (1 + x2 * x2)"
    by (intro flare_strict_mono)
  then have "u_M_wh u * (x1 * arctan x1 - 0.5 * ln (1 + x1 * x1))
           < u_M_wh u * (x2 * arctan x2 - 0.5 * ln (1 + x2 * x2))"
    using M by (rule mult_strict_left_mono)
  moreover have "LtoR u l1 = u_rho u + u_M_wh u * (x1 * arctan x1 - 0.5 * ln (1 + x1 * x1))"
    unfolding LtoR_def Let_def x1_def by (rule refl)
  moreover have "LtoR u l2 = u_rho u + u_M_wh u * (x2 * arctan x2 - 0.5 * ln (1 + x2 * x2))"
    unfolding LtoR_def Let_def x2_def by (rule refl)
  ultimately show ?thesis by linarith
qed

lemma normalize3_eq_cross:
  assumes eq: "normalize3 \<lparr>vx = p, vy = 0, vz = q\<rparr> = normalize3 \<lparr>vx = p', vy = 0, vz = q'\<rparr>"
    and nz: "p \<noteq> 0 \<or> q \<noteq> 0" and nz': "p' \<noteq> 0 \<or> q' \<noteq> 0"
  shows "q * p' = p * q'"
proof -
  define n where "n = sqrt (p * p + q * q)"
  define n' where "n' = sqrt (p' * p' + q' * q')"
  have "0 < p * p + q * q" using nz by (metis add_pos_nonneg add_nonneg_pos zero_le_square not_real_square_gt_zero)
  then have n: "0 < n" unfolding n_def by simp
  have "0 < p' * p' + q' * q'" using nz' by (metis add_pos_nonneg add_nonneg_pos zero_le_square not_real_square_gt_zero)
  then have n': "0 < n'" unfolding n'_def by simp
  from eq have "p / n = p' / n'" and "q / n = q' / n'"
    by (simp_all add: normalize3_def length3_def n_def n'_def)
  then have a: "p * n' = p' * n" and b: "q * n' = q' * n"
    using n n' by (simp_all add: field_simps)
  have "(q * p') * n = q * (p * n')" using a by (simp add: mult.assoc)
  also have "\<dots> = p * (q * n')" by (simp add: mult.commute mult.left_commute)
  also have "\<dots> = (p * q') * n" using b by (simp add: mult.assoc)
  finally show ?thesis using n by simp
qed

lemma exit_dirs_differ:
  assumes A: "A \<noteq> 0" and B: "Bc \<noteq> (Bs::real)"
  shows "normalize3 \<lparr>vx = A * sin t + Bc * cos t, vy = 0, vz = A * cos t - Bc * sin t\<rparr>
       \<noteq> normalize3 \<lparr>vx = A * sin t + Bs * cos t, vy = 0, vz = A * cos t - Bs * sin t\<rparr>"
proof
  assume eq: "normalize3 \<lparr>vx = A * sin t + Bc * cos t, vy = 0, vz = A * cos t - Bc * sin t\<rparr>
       = normalize3 \<lparr>vx = A * sin t + Bs * cos t, vy = 0, vz = A * cos t - Bs * sin t\<rparr>"
  have sc: "sin t * sin t + cos t * cos t = 1"
    using sin_cos_squared_add [of t] by (simp only: power2_eq_square)
  have nz: "A * sin t + B * cos t \<noteq> 0 \<or> A * cos t - B * sin t \<noteq> 0" for B
  proof (rule ccontr)
    assume "\<not> ?thesis"
    then have z: "A * sin t + B * cos t = 0" "A * cos t - B * sin t = 0" by simp_all
    have "A * (sin t * sin t + cos t * cos t)
            = (A * sin t + B * cos t) * sin t + (A * cos t - B * sin t) * cos t"
      by algebra
    then have "A = 0" unfolding sc z by simp
    with A show False by simp
  qed
  from normalize3_eq_cross [OF eq nz nz]
  have "(A * cos t - Bc * sin t) * (A * sin t + Bs * cos t)
          = (A * sin t + Bc * cos t) * (A * cos t - Bs * sin t)" .
  moreover have "(A * cos t - Bc * sin t) * (A * sin t + Bs * cos t)
          - (A * sin t + Bc * cos t) * (A * cos t - Bs * sin t)
          = A * (Bs - Bc) * (sin t * sin t + cos t * cos t)"
    by algebra
  ultimately have "A * (Bs - Bc) = 0" unfolding sc by simp
  with A B show False by simp
qed

lemma edge_ray_dir: "ray_dir (edge_frame t) centre_pixel = \<lparr>vx = 0.6, vy = 0, vz = 0.8\<rparr>"
proof -
  have "sqrt (0.6 * 0.6 + 0 * 0 + 0.8 * 0.8) = (1::real)" by simp
  then show ?thesis
    by (simp add: edge_frame_def centre_ray_dir normalize3_def length3_def)
qed

lemma edge_init:
  "init_state (edge_frame t) \<lparr>vx = 0.6, vy = 0, vz = 0.8\<rparr>
     = \<lparr>st_l = 49.98, st_r = 49.98, st_dl = 0.8, st_H = 29.988, st_phi = 0\<rparr>"
proof -
  have a: "sqrt (0 * 0 + 0 * 0 + 49.98 * 49.98) = (49.98::real)"
    by (rule sqrt_eqI) simp_all
  have b: "sqrt (0.6 * 0.6 + 0 * 0) = (0.6::real)"
    by (rule sqrt_eqI) simp_all
  show ?thesis
    unfolding init_state_def edge_frame_def Let_def length3_def length2_def xy_def
      host_fields vec2.simps vec3.simps a b
    by simp
qed

lemma edge_perp: "initial_perp_dir \<lparr>vx = 0.6, vy = 0, vz = 0.8\<rparr> = \<lparr>vx = 1, vy = 0\<rparr>"
proof -
  have b: "sqrt (0.6 * 0.6 + 0 * 0) = (0.6::real)"
    by (rule sqrt_eqI) simp_all
  show ?thesis
    unfolding initial_perp_dir_def normalize2_def length2_def xy_def vec2.simps vec3.simps b
    by simp
qed

lemma edge_metric: "0 < u_M_wh (edge_frame t)" "u_a (edge_frame t) = 2" "u_rho (edge_frame t) = 2"
  by (simp_all add: edge_frame_def)

section \<open>The claims\<close>

text \<open>
  \<^bold>\<open>C1\<close>, as the code has it. For every fragment, the loop of \<open>main\<close> starts from
  \<open>l = u_camera_pos.z\<close>, \<open>dl = ray_dir.z\<close>, \<open>phi = 0\<close> and
  \<open>H = length(u_camera_pos) * length(ray_dir.xy)\<close>: the radius that seeds \<open>H\<close> is the
  Euclidean norm of the camera position, not \<open>LtoR\<close> of the camera's flare coordinate.
\<close>

theorem initial_state_seed:
  "st_l (init_state u (ray_dir u frag)) = vz (u_camera_pos u) \<and>
   st_dl (init_state u (ray_dir u frag)) = vz (ray_dir u frag) \<and>
   st_H (init_state u (ray_dir u frag))
     = sqrt ((vx (u_camera_pos u))\<^sup>2 + (vy (u_camera_pos u))\<^sup>2 + (vz (u_camera_pos u))\<^sup>2)
       * sqrt ((vx (ray_dir u frag))\<^sup>2 + (vy (ray_dir u frag))\<^sup>2) \<and>
   st_phi (init_state u (ray_dir u frag)) = 0 \<and>
   main u frag
     = select_env u (st_l (for_loop u 0 (init_state u (ray_dir u frag))))
         (final_dir u (ray_dir u frag) (for_loop u 0 (init_state u (ray_dir u frag))))"
  by (simp add: init_state_def main_def Let_def length3_def length2_def xy_def power2_eq_square)

text \<open>
  The claim as it is written, with \<open>H = LtoR(l) * length(ray_dir.xy)\<close>, fails for the
  camera at \<open>(3, 4, 0)\<close> looking along the x axis, at the centre fragment: there
  \<open>l = 0\<close> lies in the flat collar, so \<open>LtoR(l) = rho = 2\<close> and the claimed \<open>H\<close> is \<open>2\<close>,
  while the code computes \<open>H = 5\<close>.
\<close>

theorem seed_radius_counterexample:
  "st_H (init_state (collar_frame 0) (ray_dir (collar_frame 0) centre_pixel)) = 5 \<and>
   LtoR (collar_frame 0) (st_l (init_state (collar_frame 0) (ray_dir (collar_frame 0) centre_pixel)))
     * length2 (xy (ray_dir (collar_frame 0) centre_pixel)) = 2 \<and>
   st_H (init_state (collar_frame 0) (ray_dir (collar_frame 0) centre_pixel))
     \<noteq> LtoR (collar_frame 0) (st_l (init_state (collar_frame 0) (ray_dir (collar_frame 0) centre_pixel)))
         * length2 (xy (ray_dir (collar_frame 0) centre_pixel))"
proof -
  have r: "LtoR (collar_frame 0) 0 = 2"
    using LtoR_collar [of "collar_frame 0" 0] by (simp add: collar_frame_def)
  have i: "init_state (collar_frame 0) \<lparr>vx = 1, vy = 0, vz = 0\<rparr>
             = \<lparr>st_l = 0, st_r = 5, st_dl = 0, st_H = 5, st_phi = 0\<rparr>"
    by (simp add: init_state_def collar_frame_def Let_def length3_def length2_def xy_def)
  show ?thesis
    by (simp add: collar_ray_dir i r length2_def xy_def)
qed

text \<open>
  \<^bold>\<open>C2\<close>, as the code has it. With \<open>rho = 2\<close>, \<open>a = 2\<close>, \<open>M_wh = 0.3\<close>, the camera at
  \<open>(0, 0, 15)\<close> looking along the positive axis and the centre fragment (\<open>uv = (0, 0)\<close>),
  the ray starts with \<open>l = 15\<close>, \<open>dl = 1\<close>, \<open>H = 0\<close>, \<open>phi = 0\<close>; the loop performs all
  \<open>MAX_STEPS = 500\<close> iterations, \<open>phi\<close> is \<open>0\<close> after every one of them, and it ends by its
  counter with \<open>l = 40\<close>, which is positive and below \<open>BOUNDARY\<close>; \<open>main\<close> reads cube
  map A, in the undeflected direction \<open>(0, 0, 1)\<close> turned by \<open>u_time * FLOW_SPEED\<close>.
\<close>

theorem axis_ray_run:
  "st_l (init_state (axis_frame time) (ray_dir (axis_frame time) centre_pixel)) = 15 \<and>
   st_dl (init_state (axis_frame time) (ray_dir (axis_frame time) centre_pixel)) = 1 \<and>
   st_H (init_state (axis_frame time) (ray_dir (axis_frame time) centre_pixel)) = 0 \<and>
   st_phi (init_state (axis_frame time) (ray_dir (axis_frame time) centre_pixel)) = 0 \<and>
   length (loop_states (axis_frame time) 0
     (init_state (axis_frame time) (ray_dir (axis_frame time) centre_pixel))) = MAX_STEPS \<and>
   map st_phi (loop_states (axis_frame time) 0
     (init_state (axis_frame time) (ray_dir (axis_frame time) centre_pixel))) = replicate MAX_STEPS 0 \<and>
   st_l (for_loop (axis_frame time) 0
     (init_state (axis_frame time) (ray_dir (axis_frame time) centre_pixel))) = 40 \<and>
   st_phi (for_loop (axis_frame time) 0
     (init_state (axis_frame time) (ray_dir (axis_frame time) centre_pixel))) = 0 \<and>
   main (axis_frame time) centre_pixel
     = Texture U_skybox_a (mat_vec (rotationY (time * FLOW_SPEED)) \<lparr>vx = 0, vy = 0, vz = 1\<rparr>)"
proof -
  define u where "u = axis_frame time"
  define s0 where "s0 = \<lparr>st_l = 15, st_r = 15, st_dl = 1, st_H = 0, st_phi = (0::real)\<rparr>"
  define s where "s = for_loop u 0 s0"
  have rd: "ray_dir u centre_pixel = \<lparr>vx = 0, vy = 0, vz = 1\<rparr>"
    unfolding u_def by (rule axis_ray_dir)
  have init': "init_state u \<lparr>vx = 0, vy = 0, vz = 1\<rparr> = s0"
    unfolding u_def s0_def by (rule axis_init)
  then have init: "init_state u (ray_dir u centre_pixel) = s0"
    by (simp add: rd)
  have len: "length (loop_states u 0 s0) = MAX_STEPS" and l: "st_l s = 40"
    unfolding u_def s0_def s_def by (rule axis_run)+
  have phis: "map st_phi (loop_states u 0 s0) = replicate MAX_STEPS 0"
  proof -
    have "\<And>t. t \<in> set (loop_states u 0 s0) \<Longrightarrow> st_phi t = 0"
      using axial_states [of s0 _ u 0] by (simp add: s0_def)
    then have "map st_phi (loop_states u 0 s0) = map (\<lambda>t. 0) (loop_states u 0 s0)"
      by (intro map_cong) simp_all
    then show ?thesis by (simp add: map_replicate_const len)
  qed
  have ne: "loop_states u 0 s0 \<noteq> []" using len by (auto simp: MAX_STEPS_def)
  then have last: "s \<in> set (loop_states u 0 s0)"
    unfolding s_def by (simp add: for_loop_last)
  then have fin: "st_phi s = 0" "st_dl s = 1"
    using axial_states [of s0 s u 0] by (simp_all add: s0_def)
  have H: "st_H s = 0" unfolding s_def by (simp add: for_loop_H s0_def)
  have dr: "0 < LtoDR u 40"
    by (rule LtoDR_pos) (simp_all add: u_def axis_frame_def)
  have dx: "exit_dx u s = LtoDR u 40" and dy: "exit_dy u s = 0"
    by (simp_all add: exit_dx_def exit_dy_def Let_def fin H l)
  have perp: "initial_perp_dir \<lparr>vx = 0, vy = 0, vz = 1\<rparr> = \<lparr>vx = 0, vy = 0\<rparr>"
    by (simp add: initial_perp_dir_def xy_def length2_def)
  have fd: "final_dir u \<lparr>vx = 0, vy = 0, vz = 1\<rparr> s = \<lparr>vx = 0, vy = 0, vz = 1\<rparr>"
    using dr by (simp add: final_dir_def Let_def dx dy perp scale2_def normalize3_axis)
  have time: "u_time u = time" by (simp add: u_def axis_frame_def)
  have "main u centre_pixel
          = Texture U_skybox_a (mat_vec (rotationY (time * FLOW_SPEED)) \<lparr>vx = 0, vy = 0, vz = 1\<rparr>)"
    by (simp add: main_def Let_def rd init' s_def [symmetric] fd select_env_def l time)
  with len phis l [unfolded s_def] fin(1) [unfolded s_def]
  have "st_l (init_state u (ray_dir u centre_pixel)) = 15 \<and>
   st_dl (init_state u (ray_dir u centre_pixel)) = 1 \<and>
   st_H (init_state u (ray_dir u centre_pixel)) = 0 \<and>
   st_phi (init_state u (ray_dir u centre_pixel)) = 0 \<and>
   length (loop_states u 0 (init_state u (ray_dir u centre_pixel))) = MAX_STEPS \<and>
   map st_phi (loop_states u 0 (init_state u (ray_dir u centre_pixel))) = replicate MAX_STEPS 0 \<and>
   st_l (for_loop u 0 (init_state u (ray_dir u centre_pixel))) = 40 \<and>
   st_phi (for_loop u 0 (init_state u (ray_dir u centre_pixel))) = 0 \<and>
   main u centre_pixel
     = Texture U_skybox_a (mat_vec (rotationY (time * FLOW_SPEED)) \<lparr>vx = 0, vy = 0, vz = 1\<rparr>)"
    unfolding init by (simp add: s0_def)
  then show ?thesis unfolding u_def .
qed

text \<open>
  The claim as it is written says that this run ends by \<open>|l|\<close> exceeding \<open>BOUNDARY\<close>.
  It does not: \<open>500\<close> steps of \<open>0.05\<close> carry \<open>l\<close> from \<open>15\<close> to \<open>40\<close> only, the final
  \<open>|l|\<close> is not above \<open>50\<close>, and the loop has used up its \<open>MAX_STEPS\<close> iterations.
\<close>

theorem axis_ray_counterexample:
  "\<not> BOUNDARY < \<bar>st_l (for_loop (axis_frame 0) 0
        (init_state (axis_frame 0) (ray_dir (axis_frame 0) centre_pixel)))\<bar> \<and>
   length (loop_states (axis_frame 0) 0
        (init_state (axis_frame 0) (ray_dir (axis_frame 0) centre_pixel))) = MAX_STEPS"
  by (simp add: axis_ray_dir axis_init axis_run BOUNDARY_def)

text \<open>
  \<^bold>\<open>C3\<close>. One iteration of the loop is the explicit Euler step of the specification:
  \<open>r\<close> and \<open>dr\<close> are taken at the pre-update \<open>l\<close>, and \<open>l\<close>, \<open>phi\<close>, \<open>dl\<close> are then
  advanced from the pre-update values, so the sequence of assignments of the body
  computes exactly \<open>spec_euler_step\<close>. Every iteration the loop performs is such a step:
  each recorded state is the Euler step of the state before it.
\<close>

theorem step_is_euler:
  "body u s = spec_euler_step u s \<and>
   loop_states u i s = map (spec_euler_step u) (butlast (s # loop_states u i s))"
proof -
  have "body u = spec_euler_step u" by (rule ext) (rule body_is_spec_step)
  then show ?thesis using loop_states_chain [of u i s] by simp
qed

text \<open>
  \<^bold>\<open>C4\<close>. After the loop the code declares \<open>dr\<close> anew from the final \<open>l\<close>, but divides
  \<open>H\<close> by the local \<open>r\<close> as the last iteration left it, which is \<open>LtoR\<close> at the \<open>l\<close> before
  that iteration's step. For the camera at \<open>(0, 0, 49.98)\<close> looking along
  \<open>(0.6, 0, 0.8)\<close>, at the centre fragment, the loop stops after one iteration with
  \<open>l = 50.02\<close> and \<open>r = LtoR(49.98)\<close>, which is below \<open>LtoR(50.02)\<close>, and the direction the
  code reconstructs is not the one obtained with \<open>r\<close> evaluated at the final \<open>l\<close>.
\<close>

theorem exit_radius_is_stale:
  "st_l (for_loop (edge_frame 0) 0 (init_state (edge_frame 0) (ray_dir (edge_frame 0) centre_pixel)))
     = 50.02 \<and>
   st_r (for_loop (edge_frame 0) 0 (init_state (edge_frame 0) (ray_dir (edge_frame 0) centre_pixel)))
     = LtoR (edge_frame 0) 49.98 \<and>
   LtoR (edge_frame 0) 49.98 < LtoR (edge_frame 0) 50.02 \<and>
   final_dir (edge_frame 0) (ray_dir (edge_frame 0) centre_pixel)
       (for_loop (edge_frame 0) 0 (init_state (edge_frame 0) (ray_dir (edge_frame 0) centre_pixel)))
     \<noteq> spec_final_dir (edge_frame 0) (ray_dir (edge_frame 0) centre_pixel)
       (for_loop (edge_frame 0) 0 (init_state (edge_frame 0) (ray_dir (edge_frame 0) centre_pixel)))"
proof -
  define u where "u = edge_frame 0"
  define rd where "rd = \<lparr>vx = 0.6, vy = 0, vz = (0.8::real)\<rparr>"
  define s0 where "s0 = \<lparr>st_l = 49.98, st_r = 49.98, st_dl = 0.8, st_H = 29.988, st_phi = (0::real)\<rparr>"
  define s where "s = body u s0"
  have M: "0 < u_M_wh u" and a: "u_a u = 2" and rho: "u_rho u = 2"
    unfolding u_def by (simp_all add: edge_metric)
  have rdeq: "ray_dir u centre_pixel = rd" unfolding u_def rd_def by (rule edge_ray_dir)
  have init: "init_state u rd = s0" unfolding u_def rd_def s0_def by (rule edge_init)
  have l: "st_l s = 50.02" unfolding s_def s0_def by (simp add: body_fields DT_def)
  have r: "st_r s = LtoR u 49.98" unfolding s_def s0_def by (simp add: body_fields)
  have H: "st_H s = 29.988" unfolding s_def s0_def by (simp add: body_fields)
  have run: "for_loop u 0 s0 = s"
    unfolding s_def by (rule for_loop_break) (simp_all add: MAX_STEPS_def BOUNDARY_def l [unfolded s_def])
  have r1: "2 \<le> LtoR u 49.98" using LtoR_ge_rho [OF M, of "49.98"] rho by simp
  have mono: "LtoR u 49.98 < LtoR u 50.02"
    by (rule LtoR_strict_mono [OF M]) (simp_all add: a)
  have dr1: "0 < LtoDR u 49.98" by (rule LtoDR_pos [OF M]) (simp_all add: a)
  have dr2: "0 < LtoDR u 50.02" by (rule LtoDR_pos [OF M]) (simp_all add: a)
  have "0 \<le> st_H s0 * st_H s0 * LtoDR u 49.98 / (LtoR u 49.98 * LtoR u 49.98 * LtoR u 49.98) * DT"
    using dr1 r1 by (simp add: DT_def s0_def)
  then have dl: "0 < st_dl s"
    unfolding s_def by (simp add: body_fields s0_def)
  have A: "st_dl s * LtoDR u (st_l s) \<noteq> 0" using dl dr2 by (simp add: l)
  have "29.988 / LtoR u 49.98 \<noteq> 29.988 / LtoR u 50.02"
    using mono r1 by (simp add: field_simps)
  then have B: "st_H s / st_r s \<noteq> st_H s / LtoR u (st_l s)"
    unfolding l r H .
  have perp: "initial_perp_dir rd = \<lparr>vx = 1, vy = 0\<rparr>"
    unfolding rd_def by (rule edge_perp)
  have code: "final_dir u rd s
     = normalize3 \<lparr>vx = st_dl s * LtoDR u (st_l s) * sin (st_phi s) + st_H s / st_r s * cos (st_phi s),
                   vy = 0,
                   vz = st_dl s * LtoDR u (st_l s) * cos (st_phi s) - st_H s / st_r s * sin (st_phi s)\<rparr>"
    by (simp add: final_dir_def exit_dx_def exit_dy_def Let_def perp scale2_def)
  have spec: "spec_final_dir u rd s
     = normalize3 \<lparr>vx = st_dl s * LtoDR u (st_l s) * sin (st_phi s) + st_H s / LtoR u (st_l s) * cos (st_phi s),
                   vy = 0,
                   vz = st_dl s * LtoDR u (st_l s) * cos (st_phi s) - st_H s / LtoR u (st_l s) * sin (st_phi s)\<rparr>"
    by (simp add: spec_final_dir_def Let_def perp scale2_def)
  have ne: "final_dir u rd s \<noteq> spec_final_dir u rd s"
    unfolding code spec by (rule exit_dirs_differ [OF A B])
  have "st_l (for_loop u 0 (init_state u (ray_dir u centre_pixel))) = 50.02 \<and>
   st_r (for_loop u 0 (init_state u (ray_dir u centre_pixel))) = LtoR u 49.98 \<and>
   LtoR u 49.98 < LtoR u 50.02 \<and>
   final_dir u (ray_dir u centre_pixel) (for_loop u 0 (init_state u (ray_dir u centre_pixel)))
     \<noteq> spec_final_dir u (ray_dir u centre_pixel) (for_loop u 0 (init_state u (ray_dir u centre_pixel)))"
    unfolding rdeq init run using l r mono ne by simp
  then show ?thesis unfolding u_def .
qed

text \<open>
  \<^bold>\<open>C5\<close>. For every fragment, \<open>main\<close> reads cube map A when the final \<open>l\<close> is at least
  \<open>0\<close> and cube map B otherwise, and nothing else decides between them. The direction
  of the read is \<open>final_dir\<close> turned about the y axis, by \<open>u_time * FLOW_SPEED\<close> for A and
  by \<open>- u_time * FLOW_SPEED * 0.7\<close> for B; \<open>rotationY angle\<close> maps \<open>(x, y, z)\<close> to
  \<open>(x cos angle - z sin angle, y, x sin angle + z cos angle)\<close>.
\<close>

theorem environment_by_sign:
  "main u frag =
     (let rd = ray_dir u frag;
          s = for_loop u 0 (init_state u rd);
          d = final_dir u rd s;
          alpha = u_time u * FLOW_SPEED;
          beta = - (u_time u * FLOW_SPEED * 0.7)
      in if 0 \<le> st_l s
         then Texture U_skybox_a
                \<lparr>vx = cos alpha * vx d - sin alpha * vz d, vy = vy d,
                 vz = sin alpha * vx d + cos alpha * vz d\<rparr>
         else Texture U_skybox_b
                \<lparr>vx = cos beta * vx d - sin beta * vz d, vy = vy d,
                 vz = sin beta * vx d + cos beta * vz d\<rparr>)"
  by (simp add: main_def select_env_def Let_def rotationY_apply)

text \<open>
  \<^bold>\<open>C6\<close>. The loop is a total function (its termination is proved with the measure
  \<open>MAX_STEPS - i\<close>). From the counter value \<open>i\<close> it performs at most \<open>MAX_STEPS - i\<close>
  iterations, so at most \<open>MAX_STEPS\<close> from \<open>i = 0\<close>; its result is the state after the last
  iteration; no iteration before the last leaves \<open>|l|\<close> above \<open>BOUNDARY\<close>; and when it
  performs fewer iterations than the counter allows, it has stopped with \<open>|l|\<close> above
  \<open>BOUNDARY\<close>.
\<close>

theorem bounded_termination:
  "length (loop_states u i s) \<le> MAX_STEPS - i \<and>
   for_loop u i s = last (s # loop_states u i s) \<and>
   (\<forall>t \<in> set (butlast (loop_states u i s)). \<bar>st_l t\<bar> \<le> BOUNDARY) \<and>
   (length (loop_states u i s) < MAX_STEPS - i \<longrightarrow> BOUNDARY < \<bar>st_l (for_loop u i s)\<bar>)"
proof (intro conjI ballI impI)
  show "length (loop_states u i s) \<le> MAX_STEPS - i" by (rule loop_states_length)
  show "for_loop u i s = last (s # loop_states u i s)" by (rule for_loop_last)
  show "\<bar>st_l t\<bar> \<le> BOUNDARY" if "t \<in> set (butlast (loop_states u i s))" for t
    using that by (rule loop_states_butlast)
  show "BOUNDARY < \<bar>st_l (for_loop u i s)\<bar>" if h: "length (loop_states u i s) < MAX_STEPS - i"
  proof -
    from h have "i < MAX_STEPS" by simp
    then have "loop_states u i s \<noteq> []" by (rule loop_states_nonempty)
    then have "for_loop u i s = last (loop_states u i s)" by (simp add: for_loop_last)
    with loop_states_short [OF h] show ?thesis by simp
  qed
qed

theorem bounded_termination_witness:
  "length (loop_states (axis_frame 0) 0 near_boundary_ray) = 2 \<and>
   length (loop_states (axis_frame 0) 0 near_boundary_ray) < MAX_STEPS - 0 \<and>
   body (axis_frame 0) near_boundary_ray \<in> set (butlast (loop_states (axis_frame 0) 0 near_boundary_ray)) \<and>
   \<bar>st_l (body (axis_frame 0) near_boundary_ray)\<bar> \<le> BOUNDARY \<and>
   BOUNDARY < \<bar>st_l (for_loop (axis_frame 0) 0 near_boundary_ray)\<bar>"
  using bounded_termination [of "axis_frame 0" 0 near_boundary_ray]
  by (auto simp add: near_boundary_states MAX_STEPS_def)

text \<open>
  \<^bold>\<open>C8\<close>. \<open>H\<close> is not assigned by the loop: the body leaves it as it is, every state the
  loop records carries the initial \<open>H\<close>, and so does the state after the loop.
\<close>

theorem H_conserved:
  "st_H (body u s) = st_H s \<and>
   st_H (for_loop u i s) = st_H s \<and>
   map st_H (loop_states u i s) = replicate (length (loop_states u i s)) (st_H s)"
proof (intro conjI)
  show "st_H (body u s) = st_H s" by (simp add: body_fields)
  show "st_H (for_loop u i s) = st_H s" by (rule for_loop_H)
  show "map st_H (loop_states u i s) = replicate (length (loop_states u i s)) (st_H s)"
    by (simp add: map_replicate_const [symmetric] loop_states_H cong: map_cong)
qed

text \<open>
  \<^bold>\<open>C7\<close>. For positive \<open>rho\<close> and \<open>M_wh\<close> (the ranges of the metric parameters), the
  \<open>r\<close> of every iteration, which is the \<open>r\<close> of the state recorded at its end, is at least
  \<open>rho\<close>, so the divisors \<open>r * r\<close> and \<open>r * r * r\<close> of the body are positive; the loop of
  \<open>main\<close> performs at least one iteration, so the \<open>r\<close> that divides \<open>H\<close> in the exit
  reconstruction is at least \<open>rho\<close> and positive as well.
\<close>

theorem divisors_positive:
  "0 < u_rho u \<Longrightarrow> 0 < u_M_wh u \<Longrightarrow>
     (\<forall>t \<in> set (loop_states u 0 s).
        u_rho u \<le> st_r t \<and> 0 < st_r t * st_r t \<and> 0 < st_r t * st_r t * st_r t) \<and>
     u_rho u \<le> st_r (for_loop u 0 s) \<and> 0 < st_r (for_loop u 0 s)"
proof -
  assume rho: "0 < u_rho u" and M: "0 < u_M_wh u"
  have a: "u_rho u \<le> st_r t" if "t \<in> set (loop_states u 0 s)" for t
    using M that by (rule loop_states_r)
  have ne: "loop_states u 0 s \<noteq> []" by (rule loop_states_nonempty) (simp add: MAX_STEPS_def)
  then have "for_loop u 0 s = last (loop_states u 0 s)" by (simp add: for_loop_last)
  moreover have "last (loop_states u 0 s) \<in> set (loop_states u 0 s)" using ne by simp
  ultimately have b: "u_rho u \<le> st_r (for_loop u 0 s)" using a by simp
  have c: "0 < st_r t \<and> 0 < st_r t * st_r t \<and> 0 < st_r t * st_r t * st_r t"
    if "t \<in> set (loop_states u 0 s)" for t
  proof -
    from a [OF that] rho have "0 < st_r t" by linarith
    then show ?thesis by simp
  qed
  from a b c rho show ?thesis by (auto intro: less_le_trans)
qed

theorem divisors_positive_witness:
  "0 < u_rho (axis_frame 0) \<and> 0 < u_M_wh (axis_frame 0) \<and>
   body (axis_frame 0) near_boundary_ray \<in> set (loop_states (axis_frame 0) 0 near_boundary_ray) \<and>
   u_rho (axis_frame 0) \<le> st_r (body (axis_frame 0) near_boundary_ray) \<and>
   0 < st_r (body (axis_frame 0) near_boundary_ray) * st_r (body (axis_frame 0) near_boundary_ray) \<and>
   0 < st_r (body (axis_frame 0) near_boundary_ray) * st_r (body (axis_frame 0) near_boundary_ray)
         * st_r (body (axis_frame 0) near_boundary_ray) \<and>
   u_rho (axis_frame 0) \<le> st_r (for_loop (axis_frame 0) 0 near_boundary_ray) \<and>
   0 < st_r (for_loop (axis_frame 0) 0 near_boundary_ray)"
proof -
  have m: "body (axis_frame 0) near_boundary_ray \<in> set (loop_states (axis_frame 0) 0 near_boundary_ray)"
    by (simp add: near_boundary_states)
  have p: "0 < u_rho (axis_frame 0)" "0 < u_M_wh (axis_frame 0)"
    by (simp_all add: axis_frame_def)
  from divisors_positive [OF p, of near_boundary_ray] m p show ?thesis
    by blast
qed

text \<open>
  \<^bold>\<open>C9\<close>. For positive \<open>M_wh\<close>, \<open>LtoR l\<close> is at least \<open>rho\<close> for every \<open>l\<close>, and equals
  \<open>rho\<close> exactly when \<open>|l| \<le> a\<close>.
\<close>

theorem radius_floor:
  "0 < u_M_wh u \<Longrightarrow> u_rho u \<le> LtoR u l \<and> (LtoR u l = u_rho u \<longleftrightarrow> \<bar>l\<bar> \<le> u_a u)"
  using LtoR_collar [of u l] LtoR_outside [of u l] LtoR_ge_rho [of u l]
  by (cases "\<bar>l\<bar> \<le> u_a u") auto

theorem radius_floor_witness:
  "0 < u_M_wh (axis_frame 0) \<and> u_rho (axis_frame 0) \<le> LtoR (axis_frame 0) 3 \<and>
   (LtoR (axis_frame 0) 3 = u_rho (axis_frame 0) \<longleftrightarrow> \<bar>3::real\<bar> \<le> u_a (axis_frame 0))"
  using radius_floor [of "axis_frame 0" 3] by (simp add: axis_frame_def)

text \<open>
  \<^bold>\<open>C10\<close>. For positive \<open>M_wh\<close> and \<open>|l| \<le> a\<close>, the clamp makes \<open>x = 0\<close>, so \<open>LtoR l\<close>
  is exactly \<open>rho\<close> and \<open>LtoDR l\<close> exactly \<open>0\<close>; and \<open>LtoDR 0 = 0\<close> for all parameters,
  since \<open>sign(0) = 0\<close>.
\<close>

theorem flat_collar:
  "0 < u_M_wh u \<Longrightarrow> \<bar>l\<bar> \<le> u_a u \<Longrightarrow> LtoR u l = u_rho u \<and> LtoDR u l = 0 \<and> LtoDR u 0 = 0"
  by (simp add: LtoR_collar LtoDR_collar LtoDR_zero)

theorem flat_collar_witness:
  "0 < u_M_wh (axis_frame 0) \<and> \<bar>1::real\<bar> \<le> u_a (axis_frame 0) \<and>
   LtoR (axis_frame 0) 1 = u_rho (axis_frame 0) \<and> LtoDR (axis_frame 0) 1 = 0 \<and>
   LtoDR (axis_frame 0) 0 = 0"
  using flat_collar [of "axis_frame 0" 1] by (simp add: axis_frame_def)

end
